theory Spec2Isabelle
  imports Main "HOL-Library.Word"
begin

section \<open>JavaScript strings and values\<close>

text \<open>
  The route module \<^verbatim>\<open>app/routes/search/index.tsx\<close> is TypeScript running on Node.
  A JavaScript string is a sequence of 16-bit code units; \<open>js\<close> turns an Isabelle
  literal into one. A value of TypeScript type \<^verbatim>\<open>string | undefined\<close> is a
  \<open>jsstring option\<close>, \<open>None\<close> standing for \<^verbatim>\<open>undefined\<close>.
\<close>

type_synonym jschar = "16 word"
type_synonym jsstring = "jschar list"

definition js :: "string \<Rightarrow> jsstring" where
  "js s = map of_char s"

text \<open>
  The values \<^verbatim>\<open>JSON.parse\<close> can return. A number keeps the literal it was written
  with (its conversion to a double is not modelled), and an object keeps its members as
  they stand in the text.
\<close>

datatype jsval =
    JNull
  | JBool bool
  | JNum jsstring
  | JStr jsstring
  | JArr "jsval list"
  | JObj "(jsstring \<times> jsval) list"

text \<open>\<^verbatim>\<open>Array.isArray\<close>.\<close>

fun Array_isArray :: "jsval \<Rightarrow> bool" where
  "Array_isArray (JArr _) = True"
| "Array_isArray _ = False"

section \<open>\<^verbatim>\<open>JSON.parse\<close>\<close>

text \<open>
  The JSON grammar of ECMA-404, as \<^verbatim>\<open>JSON.parse\<close> reads it: a lexer over code units,
  then a pushdown automaton over the tokens. No reviver is passed, and the limits an
  engine puts on the depth of nesting are not modelled.
\<close>

datatype token =
    TLBracket | TRBracket | TLBrace | TRBrace | TComma | TColon
  | TString jsstring
  | TScalar jsval

definition is_ws :: "jschar \<Rightarrow> bool" where
  "is_ws c = (c = 0x09 \<or> c = 0x0A \<or> c = 0x0D \<or> c = 0x20)"

definition is_digit :: "jschar \<Rightarrow> bool" where
  "is_digit c = (0x30 \<le> c \<and> c \<le> 0x39)"

definition hex_digit :: "jschar \<Rightarrow> jschar option" where
  "hex_digit c =
     (if 0x30 \<le> c \<and> c \<le> 0x39 then Some (c - 0x30)
      else if 0x41 \<le> c \<and> c \<le> 0x46 then Some (c - 0x37)
      else if 0x61 \<le> c \<and> c \<le> 0x66 then Some (c - 0x57)
      else None)"

text \<open>The character after a backslash, other than \<open>u\<close>: \<^verbatim>\<open>" \ / b f n r t\<close>.\<close>

definition unescape :: "jschar \<Rightarrow> jschar option" where
  "unescape e =
     (if e = 0x22 \<or> e = 0x5C \<or> e = 0x2F then Some e
      else if e = 0x62 then Some 0x08
      else if e = 0x66 then Some 0x0C
      else if e = 0x6E then Some 0x0A
      else if e = 0x72 then Some 0x0D
      else if e = 0x74 then Some 0x09
      else None)"

definition prepend :: "jschar \<Rightarrow> (jsstring \<times> jsstring) option \<Rightarrow> (jsstring \<times> jsstring) option" where
  "prepend x r = (case r of None \<Rightarrow> None | Some (s, rest) \<Rightarrow> Some (x # s, rest))"

text \<open>
  The body of a string literal, after its opening quote: the decoded string and the
  input left after the closing quote. Control characters below U+0020 are refused.
\<close>

fun lex_string :: "jsstring \<Rightarrow> (jsstring \<times> jsstring) option" where
  "lex_string [] = None"
| "lex_string (c # cs) =
     (if c = 0x22 then Some ([], cs)
      else if c = 0x5C then
        (case cs of
           [] \<Rightarrow> None
         | e # r \<Rightarrow>
             if e = 0x75 then
               (case r of
                  h1 # h2 # h3 # h4 # r' \<Rightarrow>
                    (case hex_digit h1 of None \<Rightarrow> None | Some d1 \<Rightarrow>
                    (case hex_digit h2 of None \<Rightarrow> None | Some d2 \<Rightarrow>
                    (case hex_digit h3 of None \<Rightarrow> None | Some d3 \<Rightarrow>
                    (case hex_digit h4 of None \<Rightarrow> None | Some d4 \<Rightarrow>
                       prepend (d1 * 0x1000 + d2 * 0x100 + d3 * 0x10 + d4) (lex_string r')))))
                | _ \<Rightarrow> None)
             else
               (case unescape e of
                  None \<Rightarrow> None
                | Some x \<Rightarrow> prepend x (lex_string r)))
      else if c < 0x20 then None
      else prepend c (lex_string cs))"

text \<open>
  A number literal: \<^verbatim>\<open>-? (0 | [1-9][0-9]*) (. [0-9]+)? ([eE] [+-]? [0-9]+)?\<close>.
  Each part returns what it read and the input left.
\<close>

definition lex_digits :: "jsstring \<Rightarrow> (jsstring \<times> jsstring) option" where
  "lex_digits cs =
     (if takeWhile is_digit cs = [] then None
      else Some (takeWhile is_digit cs, dropWhile is_digit cs))"

definition lex_int :: "jsstring \<Rightarrow> (jsstring \<times> jsstring) option" where
  "lex_int cs =
     (case cs of
        [] \<Rightarrow> None
      | c # r \<Rightarrow>
          if c = 0x30 then Some ([c], r)
          else if 0x31 \<le> c \<and> c \<le> 0x39 then Some (c # takeWhile is_digit r, dropWhile is_digit r)
          else None)"

definition lex_frac :: "jsstring \<Rightarrow> (jsstring \<times> jsstring) option" where
  "lex_frac cs =
     (case cs of
        [] \<Rightarrow> Some ([], [])
      | c # r \<Rightarrow>
          if c = 0x2E then
            (case lex_digits r of None \<Rightarrow> None | Some (ds, rest) \<Rightarrow> Some (c # ds, rest))
          else Some ([], cs))"

definition lex_exp :: "jsstring \<Rightarrow> (jsstring \<times> jsstring) option" where
  "lex_exp cs =
     (case cs of
        [] \<Rightarrow> Some ([], [])
      | c # r \<Rightarrow>
          if c = 0x65 \<or> c = 0x45 then
            (case r of
               [] \<Rightarrow> None
             | s # r' \<Rightarrow>
                 if s = 0x2B \<or> s = 0x2D then
                   (case lex_digits r' of None \<Rightarrow> None | Some (ds, rest) \<Rightarrow> Some (c # s # ds, rest))
                 else
                   (case lex_digits r of None \<Rightarrow> None | Some (ds, rest) \<Rightarrow> Some (c # ds, rest)))
          else Some ([], cs))"

definition lex_sign :: "jsstring \<Rightarrow> jsstring \<times> jsstring" where
  "lex_sign cs =
     (case cs of
        [] \<Rightarrow> ([], [])
      | c # r \<Rightarrow> if c = 0x2D then ([c], r) else ([], cs))"

definition lex_number :: "jsstring \<Rightarrow> (jsstring \<times> jsstring) option" where
  "lex_number cs =
     (case lex_sign cs of (sg, r0) \<Rightarrow>
     (case lex_int r0 of None \<Rightarrow> None | Some (i, r1) \<Rightarrow>
     (case lex_frac r1 of None \<Rightarrow> None | Some (f, r2) \<Rightarrow>
     (case lex_exp r2 of None \<Rightarrow> None | Some (e, r3) \<Rightarrow>
        Some (sg @ i @ f @ e, r3)))))"

lemma prepend_length:
  assumes "prepend x r = Some (s, rest)"
  obtains s' where "r = Some (s', rest)"
  using assms by (auto simp: prepend_def split: option.splits)

lemma lex_string_shorter: "lex_string cs = Some (s, rest) \<Longrightarrow> length rest < length cs"
proof (induction cs arbitrary: s rest rule: lex_string.induct)
  case 1
  then show ?case by simp
next
  case (2 c cs)
  show ?case
  proof (cases "c = 0x22")
    case True
    with "2.prems" show ?thesis by simp
  next
    case notq: False
    show ?thesis
    proof (cases "c = 0x5C")
      case False
      with notq "2.prems" obtain s' where "lex_string cs = Some (s', rest)"
        by (auto split: if_splits elim: prepend_length)
      with "2.IH"(3) notq False "2.prems" have "length rest < length cs"
        by (auto split: if_splits)
      then show ?thesis by simp
    next
      case bs: True
      from "2.prems" notq bs obtain e r where cs: "cs = e # r"
        by (cases cs) auto
      show ?thesis
      proof (cases "e = 0x75")
        case False
        with "2.prems" notq bs cs obtain x s' where
          "unescape e = Some x" "lex_string r = Some (s', rest)"
          by (auto split: option.splits elim: prepend_length)
        with "2.IH"(2) [OF notq bs cs False] have "length rest < length r"
          by blast
        with cs show ?thesis by simp
      next
        case u: True
        with "2.prems" notq bs cs obtain h1 h2 h3 h4 r' d1 d2 d3 d4 s' where
          r: "r = h1 # h2 # h3 # h4 # r'" and
          h: "hex_digit h1 = Some d1" "hex_digit h2 = Some d2"
             "hex_digit h3 = Some d3" "hex_digit h4 = Some d4" and
          l: "lex_string r' = Some (s', rest)"
          by (auto split: option.splits list.splits elim: prepend_length)
        from "2.IH"(1) [OF notq bs cs u r refl refl refl h l] have "length rest < length r'" .
        with cs r show ?thesis by simp
      qed
    qed
  qed
qed

lemma lex_digits_shorter: "lex_digits cs = Some (ds, rest) \<Longrightarrow> length rest \<le> length cs"
  by (auto simp: lex_digits_def length_dropWhile_le split: if_splits)

lemma lex_int_shorter: "lex_int cs = Some (i, rest) \<Longrightarrow> length rest < length cs"
  by (auto simp: lex_int_def less_Suc_eq_le length_dropWhile_le split: list.splits if_splits)

lemma lex_frac_shorter: "lex_frac cs = Some (f, rest) \<Longrightarrow> length rest \<le> length cs"
  by (auto simp: lex_frac_def split: list.splits if_splits option.splits
      dest!: lex_digits_shorter)

lemma lex_exp_shorter: "lex_exp cs = Some (e, rest) \<Longrightarrow> length rest \<le> length cs"
  by (auto simp: lex_exp_def split: list.splits if_splits option.splits
      dest!: lex_digits_shorter)

lemma lex_sign_shorter: "lex_sign cs = (sg, rest) \<Longrightarrow> length rest \<le> length cs"
  by (auto simp: lex_sign_def split: list.splits if_splits)

lemma lex_number_shorter: "lex_number cs = Some (n, rest) \<Longrightarrow> length rest < length cs"
  unfolding lex_number_def
  by (auto split: prod.splits option.splits
      dest!: lex_sign_shorter lex_int_shorter lex_frac_shorter lex_exp_shorter)

text \<open>
  The lexer: whitespace (tab, line feed, carriage return, space) is skipped, the six
  structural characters are tokens, and a value starts with a quote, a minus sign or a
  digit, or is one of the three literal names.
\<close>

function tokenize :: "jsstring \<Rightarrow> token list option" where
  "tokenize [] = Some []"
| "tokenize (c # cs) =
     (if is_ws c then tokenize cs
      else if c = 0x5B then map_option (Cons TLBracket) (tokenize cs)
      else if c = 0x5D then map_option (Cons TRBracket) (tokenize cs)
      else if c = 0x7B then map_option (Cons TLBrace) (tokenize cs)
      else if c = 0x7D then map_option (Cons TRBrace) (tokenize cs)
      else if c = 0x2C then map_option (Cons TComma) (tokenize cs)
      else if c = 0x3A then map_option (Cons TColon) (tokenize cs)
      else if c = 0x22 then
        (case lex_string cs of
           None \<Rightarrow> None
         | Some (s, rest) \<Rightarrow> map_option (Cons (TString s)) (tokenize rest))
      else if c = 0x2D \<or> is_digit c then
        (case lex_number (c # cs) of
           None \<Rightarrow> None
         | Some (n, rest) \<Rightarrow> map_option (Cons (TScalar (JNum n))) (tokenize rest))
      else if take 4 (c # cs) = js ''true'' then
        map_option (Cons (TScalar (JBool True))) (tokenize (drop 3 cs))
      else if take 5 (c # cs) = js ''false'' then
        map_option (Cons (TScalar (JBool False))) (tokenize (drop 4 cs))
      else if take 4 (c # cs) = js ''null'' then
        map_option (Cons (TScalar JNull)) (tokenize (drop 3 cs))
      else None)"
  by pat_completeness auto
termination
  by (relation "measure length")
     (auto simp: less_Suc_eq_le dest: lex_string_shorter lex_number_shorter)

text \<open>
  The parser reads the tokens left to right. \<open>frame\<close> is one open container: an array
  with the elements read so far (latest first), an object with its members read so far
  (latest first), or the key of the member whose value is being read. \<open>expect\<close> is what
  the grammar allows next.
\<close>

datatype frame =
    FArr "jsval list"
  | FObj "(jsstring \<times> jsval) list"
  | FKey jsstring

datatype expect =
    Val          \<comment> \<open>a value: at the start, after a comma in an array, after a colon\<close>
  | ValOrClose   \<comment> \<open>after \<^verbatim>\<open>[\<close>: a value or \<^verbatim>\<open>]\<close>\<close>
  | KeyOrClose   \<comment> \<open>after \<^verbatim>\<open>{\<close>: a key or \<^verbatim>\<open>}\<close>\<close>
  | Key          \<comment> \<open>after a comma in an object: a key\<close>
  | Colon        \<comment> \<open>after a key\<close>
  | Sep          \<comment> \<open>after a value inside a container: a comma or the closing bracket\<close>
  | End jsval    \<comment> \<open>the whole text has been read as this value: nothing may follow\<close>

type_synonym pstate = "expect \<times> frame list"

text \<open>A value is complete: it is the result, or it goes into the innermost open container.\<close>

fun complete :: "jsval \<Rightarrow> frame list \<Rightarrow> pstate option" where
  "complete v [] = Some (End v, [])"
| "complete v (FArr vs # st) = Some (Sep, FArr (v # vs) # st)"
| "complete v (FKey k # FObj ms # st) = Some (Sep, FObj ((k, v) # ms) # st)"
| "complete v _ = None"

text \<open>A token that starts a value.\<close>

fun start_value :: "token \<Rightarrow> frame list \<Rightarrow> pstate option" where
  "start_value (TScalar v) st = complete v st"
| "start_value (TString s) st = complete (JStr s) st"
| "start_value TLBracket st = Some (ValOrClose, FArr [] # st)"
| "start_value TLBrace st = Some (KeyOrClose, FObj [] # st)"
| "start_value _ st = None"

text \<open>A closing bracket or brace: it must close the innermost open container.\<close>

fun close_array :: "frame list \<Rightarrow> pstate option" where
  "close_array (FArr vs # st) = complete (JArr (rev vs)) st"
| "close_array _ = None"

fun close_object :: "frame list \<Rightarrow> pstate option" where
  "close_object (FObj ms # st) = complete (JObj (rev ms)) st"
| "close_object _ = None"

fun after_comma :: "frame list \<Rightarrow> pstate option" where
  "after_comma (FArr vs # st) = Some (Val, FArr vs # st)"
| "after_comma (FObj ms # st) = Some (Key, FObj ms # st)"
| "after_comma _ = None"

fun key_token :: "token \<Rightarrow> frame list \<Rightarrow> pstate option" where
  "key_token (TString k) st = Some (Colon, FKey k # st)"
| "key_token _ st = None"

definition step :: "token \<Rightarrow> pstate \<Rightarrow> pstate option" where
  "step t s =
     (case s of (ex, st) \<Rightarrow>
        (case ex of
           Val \<Rightarrow> start_value t st
         | ValOrClose \<Rightarrow> if t = TRBracket then close_array st else start_value t st
         | KeyOrClose \<Rightarrow> if t = TRBrace then close_object st else key_token t st
         | Key \<Rightarrow> key_token t st
         | Colon \<Rightarrow> if t = TColon then Some (Val, st) else None
         | Sep \<Rightarrow>
             if t = TComma then after_comma st
             else if t = TRBracket then close_array st
             else if t = TRBrace then close_object st
             else None
         | End v \<Rightarrow> None))"

fun run :: "pstate \<Rightarrow> token list \<Rightarrow> pstate option" where
  "run s [] = Some s"
| "run s (t # ts) = (case step t s of None \<Rightarrow> None | Some s' \<Rightarrow> run s' ts)"

definition parse_tokens :: "token list \<Rightarrow> jsval option" where
  "parse_tokens ts =
     (case run (Val, []) ts of
        Some (End v, []) \<Rightarrow> Some v
      | _ \<Rightarrow> None)"

text \<open>
  \<^verbatim>\<open>JSON.parse(x)\<close> first converts its argument to a string (\<^verbatim>\<open>undefined\<close> becomes the
  text \<^verbatim>\<open>undefined\<close>), then parses it or throws a \<^verbatim>\<open>SyntaxError\<close>.
\<close>

definition ToString :: "jsstring option \<Rightarrow> jsstring" where
  "ToString x = (case x of None \<Rightarrow> js ''undefined'' | Some s \<Rightarrow> s)"

section \<open>Requests, responses and errors\<close>

text \<open>
  \<^verbatim>\<open>process.env\<close>: the three credentials the action reads, each a string or
  \<^verbatim>\<open>undefined\<close>.
\<close>

record env =
  OPENAI_API_KEY :: "jsstring option"
  CUSTOM_SEARCH_KEY :: "jsstring option"
  CUSTOM_SEARCH_CX :: "jsstring option"

text \<open>The submitted form: its fields in order. \<^verbatim>\<open>formData.get\<close> returns the first value
  of a field, or \<^verbatim>\<open>null\<close> (here \<open>None\<close>) when the form has no such field.\<close>

record request =
  formData :: "(jsstring \<times> jsstring) list"

definition formData_get :: "request \<Rightarrow> jsstring \<Rightarrow> jsstring option" where
  "formData_get rq name = map_of (formData rq) name"

text \<open>The body of the POST to the completion endpoint, with the client's header.\<close>

record completion_request =
  post_url :: string
  authorization :: jsstring
  model :: string
  prompt :: jsstring
  max_tokens :: nat

text \<open>The GET to the search endpoint, with its query parameters.\<close>

record search_request =
  get_url :: string
  key :: "jsstring option"
  cx :: "jsstring option"
  q :: jsval
  searchType :: string

datatype call =
    CompletionCall completion_request
  | SearchCall search_request

text \<open>
  \<^verbatim>\<open>gptResponse.data\<close>: the list of choices may be missing, and a choice may have no
  text. \<^verbatim>\<open>searchResponse.data\<close>: the list of items may be missing; an item carries
  the three fields the action copies, and others.
\<close>

record choice =
  choice_text :: "jsstring option"  \<comment> \<open>the field \<^verbatim>\<open>text\<close>\<close>

record completion_data =
  choices :: "choice list option"

record ImageResult =
  link :: jsstring
  displayLink :: jsstring
  title :: jsstring

record item = ImageResult +
  other :: "(jsstring \<times> jsval) list"

record search_data =
  items :: "item list option"

text \<open>
  axios rejects a request on a transport failure or on a status outside 2xx. The
  rejection carries the request it belongs to, so a failed completion call and a failed
  search call (for a given phrase) are told apart.
\<close>

datatype axios_failure = NetworkError | BadStatus nat

datatype error =
    InvariantError string        \<comment> \<open>\<^verbatim>\<open>invariant(cond, message)\<close> with a falsy \<^verbatim>\<open>cond\<close>\<close>
  | AxiosError call axios_failure
  | TypeError string             \<comment> \<open>a property read on \<^verbatim>\<open>undefined\<close>\<close>
  | SyntaxError                  \<comment> \<open>thrown by \<^verbatim>\<open>JSON.parse\<close>\<close>

fun is_ConfigurationError :: "error \<Rightarrow> bool" where
  "is_ConfigurationError (InvariantError _) = True"
| "is_ConfigurationError _ = False"

fun is_UpstreamGenerationError :: "error \<Rightarrow> bool" where
  "is_UpstreamGenerationError (AxiosError (CompletionCall _) _) = True"
| "is_UpstreamGenerationError _ = False"

fun is_UpstreamSearchError :: "error \<Rightarrow> bool" where
  "is_UpstreamSearchError (AxiosError (SearchCall _) _) = True"
| "is_UpstreamSearchError _ = False"

definition JSON_parse :: "jsstring option \<Rightarrow> error + jsval" where
  "JSON_parse x =
     (case tokenize (ToString x) of
        None \<Rightarrow> Inl SyntaxError
      | Some ts \<Rightarrow>
          (case parse_tokens ts of
             None \<Rightarrow> Inl SyntaxError
           | Some v \<Rightarrow> Inr v))"

text \<open>
  The two outbound capabilities. The completion call is awaited alone. A search call
  answers with the moment it settles and its outcome: the calls of one request are in
  flight together, and \<^verbatim>\<open>Promise.all\<close> sees their rejections in the order they
  settle.
\<close>

record world =
  post_completions :: "completion_request \<Rightarrow> axios_failure + completion_data"
  get_customsearch :: "search_request \<Rightarrow> nat \<times> (axios_failure + search_data)"

text \<open>What the action hands back to the framework: a response, or a thrown error.\<close>

datatype body =
    ErrorBody string                         \<comment> \<open>\<^verbatim>\<open>{ error }\<close>\<close>
  | SearchBody "jsval list" "ImageResult list" \<comment> \<open>\<^verbatim>\<open>{ searchTerms, results }\<close>\<close>

record response =
  body :: body
  status :: nat

datatype outcome = Returned response | Thrown error

text \<open>\<^verbatim>\<open>json(data)\<close> and \<^verbatim>\<open>json(data, { status })\<close>.\<close>

definition json :: "body \<Rightarrow> nat option \<Rightarrow> response" where
  "json b init = \<lparr>body = b, status = (case init of None \<Rightarrow> 200 | Some st \<Rightarrow> st)\<rparr>"

section \<open>The prompt\<close>

definition newline :: jsstring where
  "newline = [0x0A]"

definition prompt_before :: jsstring where
  "prompt_before = concat
     [newline,
      [0xC9] @ js '' muito importante que a sua mensagem de resposta n'' @ [0xE3] @
        js ''o contenha nenhuma explica'' @ [0xE7] @ [0xE3] @
        js ''o ou texto, apenas o resultado da forma mais simples poss'' @ [0xED] @
        js ''vel, seguindo o exemplo a seguir:'' @ newline,
      js ''['' @ [0x22] @ js ''termo 1'' @ [0x22] @ js '', '' @ [0x22] @ js ''termo 2'' @
        [0x22] @ js '', '' @ [0x22] @ js ''termo 3'' @ [0x22] @ js '']'' @ newline,
      newline,
      js ''------ Agora, vamos '' @ [0xE0] @ js ''s instru'' @ [0xE7] @ [0xF5] @ js ''es.'' @
        newline,
      newline,
      js ''Estou criando uma API simples que faz pesquisas em imagens '' @
        js ''no Google e retorna a lista de imagens.'' @ newline,
      js ''O objetivo principal dessa ferramenta '' @ [0xE9] @
        js '' pegar uma estrutura de t'' @ [0xF3] @
        js ''picos que estou organizando para montar uma aula e trazer '' @
        js ''imagens relevantes para ilustrar o tema.'' @ newline,
      js ''Dessa forma, gostaria de automatizar essa gera'' @ [0xE7] @ [0xE3] @
        js ''o de imagens usando ChatGPT.'' @ newline,
      newline,
      js ''Portanto, para o texto da aula, traga o termo de pesquisa '' @
        js ''completo que devo usar para extrair imagens. '' @ [0xC9] @
        js '' importante que voc'' @ [0xEA] @
        js '' traga uma lista de termos de pesquisa mais detalhados, '' @
        js ''para que a imagem buscada seja o mais pr'' @ [0xF3] @ js ''ximo poss'' @ [0xED] @
        js ''vel da realidade.'' @ newline,
      js ''Como vou usar isso em um software, traga uma lista dos '' @ js ''termos j'' @
        [0xE1] @ js '' estrutura em JavaScript, sem nenhuma informa'' @ [0xE7] @ [0xE3] @
        js ''o extra, apenas o c'' @ [0xF3] @ js ''digo necess'' @ [0xE1] @
        js ''rio para criar a lista de termos e fazer a pesquisa.'' @ newline,
      [0xC9] @ js '' importante que tenha apenas 3 termos, selecionados da '' @
        js ''melhor forma para representar a ideia do texto da aula.'' @ newline,
      newline,
      newline,
      js ''----- Texto da aula:'' @ newline,
      newline]"

definition prompt_after :: jsstring where
  "prompt_after = concat
     [newline,
      newline,
      js ''Resposta:'' @ newline]"

text \<open>
  \<^verbatim>\<open>buildPrompt(query)\<close>: the template with the lesson text interpolated as it is.
  The action passes what \<^verbatim>\<open>formData.get\<close> returned, and a template literal
  interpolates \<^verbatim>\<open>null\<close> as the text \<^verbatim>\<open>null\<close>.
\<close>

definition interpolate :: "jsstring option \<Rightarrow> jsstring" where
  "interpolate x = (case x of None \<Rightarrow> js ''null'' | Some s \<Rightarrow> s)"

definition buildPrompt :: "jsstring option \<Rightarrow> jsstring" where
  "buildPrompt query = prompt_before @ interpolate query @ prompt_after"

section \<open>The action\<close>

text \<open>
  \<^verbatim>\<open>invariant(cond, message)\<close> of tiny-invariant throws when \<^verbatim>\<open>cond\<close> is falsy:
  \<^verbatim>\<open>undefined\<close> or the empty string. The error keeps the message argument.
\<close>

definition truthy :: "jsstring option \<Rightarrow> bool" where
  "truthy x = (case x of None \<Rightarrow> False | Some s \<Rightarrow> s \<noteq> [])"

definition invariant :: "jsstring option \<Rightarrow> string \<Rightarrow> error + unit" where
  "invariant cond message = (if truthy cond then Inr () else Inl (InvariantError message))"

text \<open>The request of lines 50--57, sent by the client of lines 44--48.\<close>

definition completion_request_of :: "env \<Rightarrow> jsstring option \<Rightarrow> completion_request" where
  "completion_request_of e query =
     \<lparr>post_url = ''https://api.openai.com/v1/completions'',
      authorization = js ''Bearer '' @ ToString (OPENAI_API_KEY e),
      model = ''text-davinci-003'',
      prompt = buildPrompt query,
      max_tokens = 256\<rparr>"

text \<open>The request of lines 76--86 for one term.\<close>

definition search_request_of :: "env \<Rightarrow> jsval \<Rightarrow> search_request" where
  "search_request_of e term =
     \<lparr>get_url = ''https://www.googleapis.com/customsearch/v1'',
      key = CUSTOM_SEARCH_KEY e,
      cx = CUSTOM_SEARCH_CX e,
      q = term,
      searchType = ''image''\<rparr>"

text \<open>
  Line 59, \<^verbatim>\<open>gptResponse.data.choices[0]?.text\<close>: indexing a missing \<^verbatim>\<open>choices\<close>
  throws; a missing first choice, or a first choice without text, gives
  \<^verbatim>\<open>undefined\<close>.
\<close>

definition gptResult_of :: "completion_data \<Rightarrow> error + jsstring option" where
  "gptResult_of d =
     (case choices d of
        None \<Rightarrow> Inl (TypeError ''Cannot read properties of undefined (reading 0)'')
      | Some [] \<Rightarrow> Inr None
      | Some (c # _) \<Rightarrow> Inr (choice_text c))"

text \<open>Lines 88--92: the three fields kept of each item.\<close>

definition image_result :: "item \<Rightarrow> ImageResult" where
  "image_result it = \<lparr>link = link it, displayLink = displayLink it, title = title it\<rparr>"

text \<open>
  A promise that has settled: when, and how (rejected with an error or fulfilled with
  a value).
\<close>

type_synonym 'a settled = "nat \<times> (error + 'a)"

text \<open>
  Lines 75--93, the callback mapped over the terms: one search call; a rejected call
  rejects the promise, and so does \<^verbatim>\<open>.map\<close> on a missing \<^verbatim>\<open>items\<close>.
\<close>

definition image_search :: "env \<Rightarrow> world \<Rightarrow> jsval \<Rightarrow> ImageResult list settled" where
  "image_search e w term =
     (let rq = search_request_of e term in
      case get_customsearch w rq of
        (t, r) \<Rightarrow>
          (t, case r of
                Inl f \<Rightarrow> Inl (AxiosError (SearchCall rq) f)
              | Inr d \<Rightarrow>
                  (case items d of
                     None \<Rightarrow> Inl (TypeError ''Cannot read properties of undefined (reading map)'')
                   | Some its \<Rightarrow> Inr (map image_result its))))"

text \<open>
  \<^verbatim>\<open>Promise.all\<close> over promises that are all in flight: fulfilled with the values in
  the order of the array when none is rejected, and otherwise rejected with the error of
  the rejection that settles first (the earlier in the array, should two settle at the
  same moment).
\<close>

fun rejections :: "'a settled list \<Rightarrow> (nat \<times> error) list" where
  "rejections [] = []"
| "rejections ((t, Inl err) # ps) = (t, err) # rejections ps"
| "rejections ((t, Inr v) # ps) = rejections ps"

fun fulfilled :: "'a settled list \<Rightarrow> 'a list" where
  "fulfilled [] = []"
| "fulfilled ((t, Inl err) # ps) = fulfilled ps"
| "fulfilled ((t, Inr v) # ps) = v # fulfilled ps"

fun earliest :: "nat \<times> error \<Rightarrow> (nat \<times> error) list \<Rightarrow> nat \<times> error" where
  "earliest r [] = r"
| "earliest r (x # xs) = earliest (if fst x < fst r then x else r) xs"

definition Promise_all :: "'a settled list \<Rightarrow> error + 'a list" where
  "Promise_all ps =
     (case rejections ps of
        [] \<Rightarrow> Inr (fulfilled ps)
      | r # rs \<Rightarrow> Inl (snd (earliest r rs)))"

text \<open>The elements of an array value.\<close>

fun elements :: "jsval \<Rightarrow> jsval list" where
  "elements (JArr vs) = vs"
| "elements _ = []"

text \<open>
  The action of lines 36--98. It returns what the framework receives (a response, or the
  error thrown) and the outbound calls made, in the order they were issued. The text is
  parsed twice, inside the \<^verbatim>\<open>try\<close> of lines 61--65 and again on line 67; every search
  call is issued before the join of line 74 is awaited.
\<close>

definition action :: "env \<Rightarrow> world \<Rightarrow> request \<Rightarrow> outcome \<times> call list" where
  "action e w rq =
     (let query = formData_get rq (js ''query'') in
      (case invariant (OPENAI_API_KEY e) ''OPENAI_API_KEY must be set'' of
         Inl err \<Rightarrow> (Thrown err, [])
       | Inr _ \<Rightarrow>
      (case invariant (CUSTOM_SEARCH_KEY e) ''CUSTOM_SEARCH_KEY must be set'' of
         Inl err \<Rightarrow> (Thrown err, [])
       | Inr _ \<Rightarrow>
      (case invariant (CUSTOM_SEARCH_CX e) ''CUSTOM_SEARCH_CX must be set'' of
         Inl err \<Rightarrow> (Thrown err, [])
       | Inr _ \<Rightarrow>
      (let creq = completion_request_of e query in
       (case post_completions w creq of
          Inl f \<Rightarrow> (Thrown (AxiosError (CompletionCall creq) f), [CompletionCall creq])
        | Inr d \<Rightarrow>
      (case gptResult_of d of
         Inl err \<Rightarrow> (Thrown err, [CompletionCall creq])
       | Inr gptResult \<Rightarrow>
      (case JSON_parse gptResult of
         Inl _ \<Rightarrow>
           (Returned (json (ErrorBody ''Invalid response from GPT'') (Some 400)),
            [CompletionCall creq])
       | Inr _ \<Rightarrow>
      (case JSON_parse gptResult of
         Inl err \<Rightarrow> (Thrown err, [CompletionCall creq])
       | Inr gptResultAsArray \<Rightarrow>
           if \<not> Array_isArray gptResultAsArray then
             (Returned (json (ErrorBody ''Invalid response from GPT'') (Some 400)),
              [CompletionCall creq])
           else
             (let terms = elements gptResultAsArray;
                  calls = CompletionCall creq #
                    map (\<lambda>term. SearchCall (search_request_of e term)) terms
              in
                (case Promise_all (map (image_search e w) terms) of
                   Inl err \<Rightarrow> (Thrown err, calls)
                 | Inr results \<Rightarrow>
                     (Returned (json (SearchBody terms (concat results)) None), calls))))))))))))"

section \<open>Vocabulary of the properties\<close>

text \<open>
  All three credentials are set; the completion request the action sends; the completion
  call is answered and line 59 extracts \<open>g\<close> from the answer; the answer of the search
  capability for a term; the search calls for a list of terms.
\<close>

definition credentials_set :: "env \<Rightarrow> bool" where
  "credentials_set e =
     (truthy (OPENAI_API_KEY e) \<and> truthy (CUSTOM_SEARCH_KEY e) \<and> truthy (CUSTOM_SEARCH_CX e))"

definition completion_sent :: "env \<Rightarrow> request \<Rightarrow> completion_request" where
  "completion_sent e rq = completion_request_of e (formData_get rq (js ''query''))"

definition completion_returns :: "env \<Rightarrow> world \<Rightarrow> request \<Rightarrow> jsstring option \<Rightarrow> bool" where
  "completion_returns e w rq g =
     (case post_completions w (completion_sent e rq) of
        Inl f \<Rightarrow> False
      | Inr d \<Rightarrow> gptResult_of d = Inr g)"

definition search_answer :: "env \<Rightarrow> world \<Rightarrow> jsval \<Rightarrow> axios_failure + search_data" where
  "search_answer e w term = snd (get_customsearch w (search_request_of e term))"

definition search_calls_of :: "env \<Rightarrow> jsval list \<Rightarrow> call list" where
  "search_calls_of e terms = map (\<lambda>term. SearchCall (search_request_of e term)) terms"

text \<open>The response of lines 64 and 70.\<close>

definition invalid_response :: response where
  "invalid_response = \<lparr>body = ErrorBody ''Invalid response from GPT'', status = 400\<rparr>"

text \<open>The search requests among the calls made.\<close>

fun search_requests :: "call list \<Rightarrow> search_request list" where
  "search_requests [] = []"
| "search_requests (CompletionCall c # cs) = search_requests cs"
| "search_requests (SearchCall r # cs) = r # search_requests cs"


section \<open>Example runs\<close>

text \<open>
  A configured environment, a request carrying a lesson text, and a world whose
  completion call answers with the data \<open>d\<close> (\<open>one_choice g\<close>: one choice of text \<open>g\<close>)
  and whose search call answers each term as \<open>s\<close> says.
\<close>

definition quoted :: "string \<Rightarrow> jsstring" where
  "quoted s = [0x22] @ js s @ [0x22]"

definition example_env :: env where
  "example_env =
     \<lparr>OPENAI_API_KEY = Some (js ''sk-test''),
      CUSTOM_SEARCH_KEY = Some (js ''search-key''),
      CUSTOM_SEARCH_CX = Some (js ''search-cx'')\<rparr>"

definition example_request :: request where
  "example_request = \<lparr>formData = [(js ''query'', js ''The planets of the solar system'')]\<rparr>"

definition one_choice :: "jsstring option \<Rightarrow> completion_data" where
  "one_choice g = \<lparr>choices = Some [\<lparr>choice_text = g\<rparr>]\<rparr>"

definition example_world ::
    "completion_data \<Rightarrow> (jsval \<Rightarrow> nat \<times> (axios_failure + search_data)) \<Rightarrow> world" where
  "example_world d s =
     \<lparr>post_completions = (\<lambda>c. Inr d),
      get_customsearch = (\<lambda>r. s (q r))\<rparr>"

definition example_item :: "string \<Rightarrow> item" where
  "example_item name =
     \<lparr>link = js ''https://images.example/'' @ js name,
      displayLink = js ''images.example'',
      title = js name,
      other = [(js ''mime'', JStr (js ''image/png''))]\<rparr>"

text \<open>A search capability that finds nothing, answering with an empty list of items.\<close>

definition no_images :: "jsval \<Rightarrow> nat \<times> (axios_failure + search_data)" where
  "no_images term = (1, Inr \<lparr>items = Some []\<rparr>)"

text \<open>
  A completion text of three phrases, and a search capability with a fixed answer for
  each phrase, settling after 300, 100 and 200 time units.
\<close>

definition three_terms :: jsstring where
  "three_terms =
     js ''['' @ quoted ''sun'' @ js '', '' @ quoted ''moon'' @ js '', '' @ quoted ''star'' @ js '']''"

definition planet_images :: "jsval \<Rightarrow> nat \<times> (axios_failure + search_data)" where
  "planet_images term =
     (if term = JStr (js ''sun'') then
        (300, Inr \<lparr>items = Some [example_item ''sun-1'', example_item ''sun-2'']\<rparr>)
      else if term = JStr (js ''moon'') then (100, Inr \<lparr>items = Some []\<rparr>)
      else (200, Inr \<lparr>items = Some [example_item ''other'']\<rparr>))"


definition an_object :: jsstring where
  "an_object = js ''{'' @ quoted ''a'' @ js '':1}''"

text \<open>The search capability rejects the second phrase with a 503 and answers the others.\<close>

definition moon_unavailable :: "jsval \<Rightarrow> nat \<times> (axios_failure + search_data)" where
  "moon_unavailable term =
     (if term = JStr (js ''moon'') then (100, Inl (BadStatus 503)) else planet_images term)"

text \<open>
  The answer for the first phrase lacks its items and settles first; the search for the
  second phrase is rejected later.
\<close>

definition items_missing_then_rejected :: "jsval \<Rightarrow> nat \<times> (axios_failure + search_data)" where
  "items_missing_then_rejected term =
     (if term = JStr (js ''sun'') then (100, Inr \<lparr>items = None\<rparr>)
      else if term = JStr (js ''moon'') then (300, Inl (BadStatus 503))
      else planet_images term)"

text \<open>The same answers, settling in the opposite order.\<close>

definition planet_images_reversed :: "jsval \<Rightarrow> nat \<times> (axios_failure + search_data)" where
  "planet_images_reversed term = (400 - fst (planet_images term), snd (planet_images term))"

text \<open>A search capability whose answers carry no \<^verbatim>\<open>items\<close> field.\<close>

definition no_items_field :: "jsval \<Rightarrow> nat \<times> (axios_failure + search_data)" where
  "no_items_field term = (1, Inr \<lparr>items = None\<rparr>)"

text \<open>An environment where the completion key is not set.\<close>

definition env_without_openai_key :: env where
  "env_without_openai_key = example_env\<lparr>OPENAI_API_KEY := None\<rparr>"

section \<open>Lemmas on the join and on the action\<close>

lemma earliest_mem: "earliest r xs \<in> set (r # xs)"
proof (induction xs arbitrary: r)
  case Nil
  show ?case by simp
next
  case (Cons x xs)
  have "earliest (if fst x < fst r then x else r) xs \<in> set ((if fst x < fst r then x else r) # xs)"
    by (rule Cons.IH)
  then show ?case by (auto split: if_splits)
qed

lemma rejections_mem: "(t, err) \<in> set (rejections ps) \<longleftrightarrow> (t, Inl err) \<in> set ps"
  by (induction ps rule: rejections.induct) auto

text \<open>A rejected promise in the array: the join is rejected, with the error of one of them.\<close>

lemma Promise_all_rejected:
  assumes "(t, Inl err) \<in> set ps"
  obtains t' err' where "(t', Inl err') \<in> set ps" and "Promise_all ps = Inl err'"
proof -
  from assms have "(t, err) \<in> set (rejections ps)"
    by (simp add: rejections_mem)
  then obtain r rs where rs: "rejections ps = r # rs"
    by (cases "rejections ps") auto
  have "earliest r rs \<in> set (rejections ps)"
    using earliest_mem [of r rs] rs by simp
  then have "(fst (earliest r rs), Inl (snd (earliest r rs))) \<in> set ps"
    by (simp add: rejections_mem [symmetric])
  moreover have "Promise_all ps = Inl (snd (earliest r rs))"
    by (simp add: Promise_all_def rs)
  ultimately show thesis
    using that by blast
qed

text \<open>Every promise fulfilled: the join is fulfilled with the values, in array order.\<close>

lemma Promise_all_fulfilled:
  assumes "\<And>x. x \<in> set xs \<Longrightarrow> snd (f x) = Inr (g x)"
  shows "Promise_all (map f xs) = Inr (map g xs)"
proof -
  from assms have "rejections (map f xs) = [] \<and> fulfilled (map f xs) = map g xs"
  proof (induction xs)
    case Nil
    then show ?case by simp
  next
    case (Cons x xs)
    then have "snd (f x) = Inr (g x)" by simp
    then obtain t where "f x = (t, Inr (g x))"
      by (cases "f x") simp
    with Cons show ?case by simp
  qed
  then show ?thesis
    by (simp add: Promise_all_def)
qed

lemma Promise_all_Inr_all:
  assumes "Promise_all ps = Inr rs" and "p \<in> set ps"
  shows "\<exists>v. snd p = Inr v"
proof (cases p)
  case (Pair t r)
  show ?thesis
  proof (cases r)
    case (Inl err)
    with Pair assms(2) have "(t, Inl err) \<in> set ps" by simp
    then obtain t' err' where "Promise_all ps = Inl err'"
      by (rule Promise_all_rejected)
    with assms(1) show ?thesis by simp
  next
    case (Inr v)
    with Pair show ?thesis by simp
  qed
qed

text \<open>The join depends on the values the promises are fulfilled with, not on when.\<close>

lemma Promise_all_same_values:
  assumes "Promise_all (map f1 xs) = Inr rs"
    and "\<And>x v. x \<in> set xs \<Longrightarrow> snd (f1 x) = Inr v \<Longrightarrow> snd (f2 x) = Inr v"
  shows "Promise_all (map f2 xs) = Inr rs"
proof -
  define g where "g x = projr (snd (f1 x))" for x
  have 1: "snd (f1 x) = Inr (g x)" if "x \<in> set xs" for x
  proof -
    from that have "f1 x \<in> set (map f1 xs)" by simp
    from Promise_all_Inr_all [OF assms(1) this] show ?thesis
      by (auto simp: g_def)
  qed
  then have 2: "snd (f2 x) = Inr (g x)" if "x \<in> set xs" for x
    using that assms(2) by blast
  from 1 have "Promise_all (map f1 xs) = Inr (map g xs)"
    by (rule Promise_all_fulfilled)
  moreover from 2 have "Promise_all (map f2 xs) = Inr (map g xs)"
    by (rule Promise_all_fulfilled)
  ultimately show ?thesis
    using assms(1) by simp
qed

lemma Array_isArray_iff: "Array_isArray v \<longleftrightarrow> (\<exists>terms. v = JArr terms)"
  by (cases v) simp_all


text \<open>The callback for one term, by the answer of the search capability.\<close>

lemma image_search_snd:
  "snd (image_search e w term) =
     (case search_answer e w term of
        Inl f \<Rightarrow> Inl (AxiosError (SearchCall (search_request_of e term)) f)
      | Inr d \<Rightarrow>
          (case items d of
             None \<Rightarrow> Inl (TypeError ''Cannot read properties of undefined (reading map)'')
           | Some its \<Rightarrow> Inr (map image_result its)))"
  by (simp add: image_search_def search_answer_def Let_def split: prod.splits)


lemma image_search_same_value:
  assumes "search_answer e1 w1 tm = search_answer e2 w2 tm"
    and "snd (image_search e1 w1 tm) = Inr v"
  shows "snd (image_search e2 w2 tm) = Inr v"
  using assms by (auto simp: image_search_snd split: sum.splits option.splits)

lemma image_search_mem:
  "tm \<in> set terms \<Longrightarrow>
     (fst (image_search e w tm), snd (image_search e w tm)) \<in> set (map (image_search e w) terms)"
  by auto

text \<open>
  The action once the credentials are set and the completion call has been answered, by
  what the completion text parses to.
\<close>

lemma action_unparsed:
  assumes "credentials_set e" and "completion_returns e w rq g"
    and "JSON_parse g = Inl err"
  shows "action e w rq = (Returned invalid_response, [CompletionCall (completion_sent e rq)])"
  using assms
  by (auto simp: action_def credentials_set_def completion_returns_def completion_sent_def
      invariant_def invalid_response_def json_def Let_def split: sum.splits)

lemma action_not_array:
  assumes "credentials_set e" and "completion_returns e w rq g"
    and "JSON_parse g = Inr v" and "\<not> Array_isArray v"
  shows "action e w rq = (Returned invalid_response, [CompletionCall (completion_sent e rq)])"
  using assms
  by (auto simp: action_def credentials_set_def completion_returns_def completion_sent_def
      invariant_def invalid_response_def json_def Let_def split: sum.splits)

lemma action_of_array:
  assumes "credentials_set e" and "completion_returns e w rq g"
    and "JSON_parse g = Inr (JArr terms)"
  shows "action e w rq =
     (case Promise_all (map (image_search e w) terms) of
        Inl err \<Rightarrow> (Thrown err, CompletionCall (completion_sent e rq) # search_calls_of e terms)
      | Inr rs \<Rightarrow>
          (Returned \<lparr>body = SearchBody terms (concat rs), status = 200\<rparr>,
           CompletionCall (completion_sent e rq) # search_calls_of e terms))"
  using assms
  by (auto simp: action_def credentials_set_def completion_returns_def completion_sent_def
      invariant_def json_def search_calls_of_def Let_def split: sum.splits)

text \<open>The completion call is made exactly when the three credentials are set.\<close>

lemma completion_call_made_iff:
  "CompletionCall (completion_sent e rq) \<in> set (snd (action e w rq)) \<longleftrightarrow> credentials_set e"
  by (auto simp: action_def credentials_set_def invariant_def completion_sent_def Let_def
      split: sum.splits)

text \<open>
  A rejected completion call ends the action: the error thrown is the rejection, and no
  search call is made.
\<close>

lemma completion_failure_short_circuits:
  assumes "credentials_set e" and "post_completions w (completion_sent e rq) = Inl f"
  shows "action e w rq =
           (Thrown (AxiosError (CompletionCall (completion_sent e rq)) f),
            [CompletionCall (completion_sent e rq)])
       \<and> is_UpstreamGenerationError (AxiosError (CompletionCall (completion_sent e rq)) f)"
  using assms
  by (simp add: action_def credentials_set_def completion_sent_def invariant_def Let_def)

text \<open>The prompt carries the lesson text as it is, between the two fixed parts.\<close>

lemma buildPrompt_verbatim: "buildPrompt (Some lesson) = prompt_before @ lesson @ prompt_after"
  by (simp add: buildPrompt_def interpolate_def)

text \<open>The parser on a few texts: nesting, numbers, escapes, and what the grammar refuses.\<close>

lemma JSON_parse_nested:
  "JSON_parse (Some (js ''{'' @ quoted ''a'' @ js '': [1, {'' @ quoted ''b'' @ js '':null}], ''
      @ quoted ''c'' @ js '':-0.5e+10}'')) =
     Inr (JObj [(js ''a'', JArr [JNum (js ''1''), JObj [(js ''b'', JNull)]]),
                (js ''c'', JNum (js ''-0.5e+10''))])"
  by code_simp

lemma JSON_parse_escapes:
  "JSON_parse (Some ([0x22, 0x5C] @ js ''u0041'' @ [0x5C] @ js ''n'' @ [0x5C, 0x22, 0x22])) =
     Inr (JStr [0x41, 0x0A, 0x22])"
  by code_simp

lemma JSON_parse_refused:
  "JSON_parse (Some (js ''[1,]'')) = Inl SyntaxError"
  "JSON_parse (Some (js ''01'')) = Inl SyntaxError"
  "JSON_parse (Some (js ''[1] 2'')) = Inl SyntaxError"
  "JSON_parse (Some (js ''tru'')) = Inl SyntaxError"
  "JSON_parse (Some []) = Inl SyntaxError"
  by code_simp+

text \<open>Facts of the example runs.\<close>

lemma example_credentials: "credentials_set example_env"
  by (simp add: credentials_set_def example_env_def truthy_def js_def)

lemma example_completion:
  "completion_returns example_env (example_world (one_choice g) s) example_request g"
  by (simp add: completion_returns_def example_world_def one_choice_def gptResult_of_def)

lemma three_terms_parsed:
  "JSON_parse (Some three_terms) =
     Inr (JArr [JStr (js ''sun''), JStr (js ''moon''), JStr (js ''star'')])"
  by code_simp


lemma an_object_parsed:
  "JSON_parse (Some an_object) = Inr (JObj [(js ''a'', JNum (js ''1''))])"
  by code_simp

lemma not_json_unparsed: "JSON_parse (Some (js ''not json'')) = Inl SyntaxError"
  by code_simp

lemma JSON_parse_undefined: "JSON_parse None = Inl SyntaxError"
  by code_simp

lemma planets_run:
  "fst (action example_env (example_world (one_choice (Some three_terms)) planet_images)
          example_request) =
     Returned
       \<lparr>body = SearchBody [JStr (js ''sun''), JStr (js ''moon''), JStr (js ''star'')]
           [image_result (example_item ''sun-1''), image_result (example_item ''sun-2''),
            image_result (example_item ''other'')],
        status = 200\<rparr>"
  unfolding action_of_array [OF example_credentials example_completion three_terms_parsed]
  by (simp add: image_search_def example_world_def planet_images_def Promise_all_def
      search_request_of_def js_def)

section \<open>The properties\<close>



text \<open>
  C2. The claim has every failed search end the request in an UpstreamSearchError. In this
  run the search for the second phrase is rejected with a 503, and the error thrown is
  the \<^verbatim>\<open>TypeError\<close> of the first phrase, whose answer lacks its items and settles
  earlier.
\<close>

theorem C2_type_error_settles_first_counterexample:
  "search_answer example_env
     (example_world (one_choice (Some three_terms)) items_missing_then_rejected)
     (JStr (js ''moon'')) = Inl (BadStatus 503)
   \<and> fst (action example_env
            (example_world (one_choice (Some three_terms)) items_missing_then_rejected)
            example_request) =
       Thrown (TypeError ''Cannot read properties of undefined (reading map)'')
   \<and> \<not> is_UpstreamSearchError (TypeError ''Cannot read properties of undefined (reading map)'')"
  unfolding action_of_array [OF example_credentials example_completion three_terms_parsed]
  by (simp add: search_answer_def image_search_def example_world_def
      items_missing_then_rejected_def planet_images_def Promise_all_def
      search_request_of_def js_def)

text \<open>
  C2, as the action has it. When the search call for any one term is rejected, the action
  returns no response: it throws, whatever the other searches answered, so no
  \<^verbatim>\<open>{ searchTerms, results }\<close> body is built from a part of the results. When every
  search that was answered carries its list of items, the error thrown is the rejection
  of a failed search call (an axios error that carries the search request of its term).
\<close>

theorem C2_one_failed_search_fails_the_request:
  assumes "credentials_set e" and "completion_returns e w rq g"
    and "JSON_parse g = Inr (JArr terms)"
    and "tm \<in> set terms" and "search_answer e w tm = Inl f"
  shows "\<exists>err. fst (action e w rq) = Thrown err
           \<and> ((\<forall>t\<in>set terms. \<forall>d. search_answer e w t = Inr d \<longrightarrow> items d \<noteq> None) \<longrightarrow>
                is_UpstreamSearchError err
              \<and> (\<exists>t'\<in>set terms. \<exists>f'. search_answer e w t' = Inl f'
                    \<and> err = AxiosError (SearchCall (search_request_of e t')) f'))"
proof -
  have "snd (image_search e w tm) = Inl (AxiosError (SearchCall (search_request_of e tm)) f)"
    using assms(5) by (simp add: image_search_snd)
  with image_search_mem [OF assms(4), of e w]
  have "(fst (image_search e w tm), Inl (AxiosError (SearchCall (search_request_of e tm)) f))
      \<in> set (map (image_search e w) terms)"
    by simp
  then obtain t' err where
    mem: "(t', Inl err) \<in> set (map (image_search e w) terms)" and
    all: "Promise_all (map (image_search e w) terms) = Inl err"
    by (rule Promise_all_rejected)
  have thrown: "fst (action e w rq) = Thrown err"
    by (simp add: action_of_array [OF assms(1-3)] all)
  from mem obtain x where x: "x \<in> set terms" and "image_search e w x = (t', Inl err)"
    by auto
  then have sx: "snd (image_search e w x) = Inl err"
    by simp
  have "is_UpstreamSearchError err
      \<and> (\<exists>t'\<in>set terms. \<exists>f'. search_answer e w t' = Inl f'
            \<and> err = AxiosError (SearchCall (search_request_of e t')) f')"
    if carry: "\<forall>t\<in>set terms. \<forall>d. search_answer e w t = Inr d \<longrightarrow> items d \<noteq> None"
  proof (cases "search_answer e w x")
    case (Inl f')
    with sx have "err = AxiosError (SearchCall (search_request_of e x)) f'"
      by (simp add: image_search_snd)
    with Inl x show ?thesis by auto
  next
    case (Inr d)
    with carry x have "items d \<noteq> None" by blast
    with Inr sx show ?thesis
      by (auto simp: image_search_snd)
  qed
  with thrown show ?thesis by blast
qed

theorem C2_witness_second_of_three_fails:
  "fst (action example_env (example_world (one_choice (Some three_terms)) moon_unavailable)
          example_request) =
     Thrown (AxiosError (SearchCall (search_request_of example_env (JStr (js ''moon''))))
       (BadStatus 503))"
proof -
  let ?w = "example_world (one_choice (Some three_terms)) moon_unavailable"
  let ?terms = "[JStr (js ''sun''), JStr (js ''moon''), JStr (js ''star'')]"
  have ans: "search_answer example_env ?w tm =
      (if tm = JStr (js ''moon'') then Inl (BadStatus 503)
       else if tm = JStr (js ''sun'') then
         Inr \<lparr>items = Some [example_item ''sun-1'', example_item ''sun-2'']\<rparr>
       else Inr \<lparr>items = Some [example_item ''other'']\<rparr>)" for tm
    by (simp add: search_answer_def example_world_def search_request_of_def
        moon_unavailable_def planet_images_def)
  have m: "JStr (js ''moon'') \<in> set ?terms" by simp
  have f: "search_answer example_env ?w (JStr (js ''moon'')) = Inl (BadStatus 503)"
    by (simp add: ans)
  have carry: "\<forall>t\<in>set ?terms. \<forall>d. search_answer example_env ?w t = Inr d \<longrightarrow> items d \<noteq> None"
    by (auto simp: ans split: if_splits)
  from C2_one_failed_search_fails_the_request
    [OF example_credentials example_completion three_terms_parsed m f] carry
  obtain err t' f' where
    "fst (action example_env ?w example_request) = Thrown err"
    "t' \<in> set ?terms" "search_answer example_env ?w t' = Inl f'"
    "err = AxiosError (SearchCall (search_request_of example_env t')) f'"
    by blast
  then show ?thesis
    by (auto simp: ans split: if_splits)
qed




text \<open>
  C4. When the raw completion output is not parseable JSON, or parses to a value that is
  not an array (an object or a scalar), the action returns the response
  \<^verbatim>\<open>{ error: "Invalid response from GPT" }\<close> with status 400, and the completion call
  is the only outbound call made: no search call is issued.
\<close>

theorem C4_invalid_generation_is_400_without_search:
  assumes "credentials_set e" and "completion_returns e w rq g"
    and "JSON_parse g = Inl err \<or> (JSON_parse g = Inr v \<and> \<not> Array_isArray v)"
  shows "fst (action e w rq) =
           Returned \<lparr>body = ErrorBody ''Invalid response from GPT'', status = 400\<rparr>
       \<and> snd (action e w rq) = [CompletionCall (completion_sent e rq)]
       \<and> search_requests (snd (action e w rq)) = []"
proof -
  have "action e w rq = (Returned invalid_response, [CompletionCall (completion_sent e rq)])"
    using assms(3)
  proof
    assume "JSON_parse g = Inl err"
    then show ?thesis
      by (rule action_unparsed [OF assms(1,2)])
  next
    assume "JSON_parse g = Inr v \<and> \<not> Array_isArray v"
    then show ?thesis
      by (simp add: action_not_array [OF assms(1,2)])
  qed
  then show ?thesis
    by (simp add: invalid_response_def)
qed

theorem C4_witness_not_json_and_object:
  "action example_env (example_world (one_choice (Some (js ''not json''))) no_images)
     example_request =
     (Returned \<lparr>body = ErrorBody ''Invalid response from GPT'', status = 400\<rparr>,
      [CompletionCall (completion_sent example_env example_request)])
   \<and> action example_env (example_world (one_choice (Some an_object)) no_images)
       example_request =
     (Returned \<lparr>body = ErrorBody ''Invalid response from GPT'', status = 400\<rparr>,
      [CompletionCall (completion_sent example_env example_request)])"
proof -
  have o: "JSON_parse (Some an_object) = Inr (JObj [(js ''a'', JNum (js ''1''))])
      \<and> \<not> Array_isArray (JObj [(js ''a'', JNum (js ''1''))])"
    by (simp add: an_object_parsed)
  from C4_invalid_generation_is_400_without_search
    [OF example_credentials example_completion disjI1, OF not_json_unparsed]
  C4_invalid_generation_is_400_without_search
    [OF example_credentials example_completion disjI2, OF o]
  show ?thesis
    by (simp add: prod_eq_iff)
qed

text \<open>
  C5. The claim covers an answer without the \<^verbatim>\<open>items\<close> field; there the callback
  of lines 75--93 is rejected with a \<^verbatim>\<open>TypeError\<close>.
\<close>

theorem C5_absent_items_counterexample:
  "image_search example_env (example_world (one_choice (Some three_terms)) no_items_field)
     (JStr (js ''moon'')) =
   (1, Inl (TypeError ''Cannot read properties of undefined (reading map)''))"
  by (simp add: image_search_def example_world_def no_items_field_def search_request_of_def)

text \<open>
  C5, as the action has it. For every term, when the search call is answered and the
  answer carries an empty list of items, the callback is fulfilled with the empty list of
  results.
\<close>

theorem C5_empty_items_give_empty_results:
  assumes "get_customsearch w (search_request_of e term) = (t, Inr d)" and "items d = Some []"
  shows "image_search e w term = (t, Inr [])"
  using assms by (simp add: image_search_def)

theorem C5_witness_no_images:
  "image_search example_env (example_world (one_choice (Some three_terms)) no_images)
     (JStr (js ''moon'')) = (1, Inr [])"
proof -
  have a: "get_customsearch (example_world (one_choice (Some three_terms)) no_images)
      (search_request_of example_env (JStr (js ''moon''))) = (1, Inr \<lparr>items = Some []\<rparr>)"
    by (simp add: example_world_def no_images_def search_request_of_def)
  from C5_empty_items_give_empty_results [OF a] show ?thesis
    by simp
qed

text \<open>
  C6. The claim makes a missing credential a failure of start-up, raised before any
  request is processed. The action checks the credentials itself: with the completion key
  unset, the error is the outcome of processing a request.
\<close>

theorem C6_configuration_error_per_request_counterexample:
  "action env_without_openai_key (example_world (one_choice (Some three_terms)) planet_images)
     example_request =
   (Thrown (InvariantError ''OPENAI_API_KEY must be set''), [])"
  by (simp add: action_def env_without_openai_key_def invariant_def truthy_def)

text \<open>
  C6, as the action has it. When any of the three credentials is unset or empty, the
  request fails with the invariant error and no outbound call has been made.
\<close>

theorem C6_missing_credential_fails_request_before_calls:
  assumes "\<not> credentials_set e"
  shows "\<exists>err. is_ConfigurationError err \<and> action e w rq = (Thrown err, [])"
  using assms
  by (auto simp: action_def credentials_set_def invariant_def Let_def)

theorem C6_witness_empty_search_key:
  "(\<exists>err. is_ConfigurationError err \<and>
      action (example_env\<lparr>CUSTOM_SEARCH_KEY := Some []\<rparr>)
        (example_world (one_choice (Some three_terms)) planet_images) example_request =
      (Thrown err, []))
   \<and> \<not> truthy (CUSTOM_SEARCH_KEY (example_env\<lparr>CUSTOM_SEARCH_KEY := Some []\<rparr>))"
proof -
  have "\<not> credentials_set (example_env\<lparr>CUSTOM_SEARCH_KEY := Some []\<rparr>)"
    by (simp add: credentials_set_def truthy_def)
  from C6_missing_credential_fails_request_before_calls [OF this] show ?thesis
    by (simp add: truthy_def)
qed

text \<open>
  C7. Two runs on the same request, with the credentials set in both, the same answer to
  the completion call and the same answer to the search call of every term: a response
  returned by one run is returned by the other. The moments at which the searches settle
  may differ between the runs, and so may the credentials.
\<close>

theorem C7_response_determined_by_text_and_answers:
  assumes "credentials_set e1" and "credentials_set e2"
    and "post_completions w1 (completion_sent e1 rq) = post_completions w2 (completion_sent e2 rq)"
    and "\<And>tm. search_answer e1 w1 tm = search_answer e2 w2 tm"
    and "fst (action e1 w1 rq) = Returned r"
  shows "fst (action e2 w2 rq) = Returned r"
proof (cases "post_completions w1 (completion_sent e1 rq)")
  case (Inl f)
  with assms(1,5) show ?thesis
    by (simp add: completion_failure_short_circuits)
next
  case d: (Inr d)
  show ?thesis
  proof (cases "gptResult_of d")
    case (Inl err)
    with d assms(1,5) show ?thesis
      by (simp add: action_def credentials_set_def invariant_def completion_sent_def Let_def)
  next
    case (Inr g)
    with d have r1: "completion_returns e1 w1 rq g"
      by (simp add: completion_returns_def)
    from Inr d assms(3) have r2: "completion_returns e2 w2 rq g"
      by (simp add: completion_returns_def)
    show ?thesis
    proof (cases "JSON_parse g")
      case (Inl err)
      with assms(5) show ?thesis
        by (simp add: action_unparsed [OF assms(1) r1] action_unparsed [OF assms(2) r2])
    next
      case v: (Inr v)
      show ?thesis
      proof (cases "Array_isArray v")
        case False
        with v assms(5) show ?thesis
          by (simp add: action_not_array [OF assms(1) r1] action_not_array [OF assms(2) r2])
      next
        case True
        then obtain terms where p: "JSON_parse g = Inr (JArr terms)"
          using v by (auto simp: Array_isArray_iff)
        from assms(5) obtain rs where
          all1: "Promise_all (map (image_search e1 w1) terms) = Inr rs" and
          r: "r = \<lparr>body = SearchBody terms (concat rs), status = 200\<rparr>"
          by (auto simp: action_of_array [OF assms(1) r1 p] split: sum.splits)
        from all1 have "Promise_all (map (image_search e2 w2) terms) = Inr rs"
          by (rule Promise_all_same_values) (rule image_search_same_value [OF assms(4)])
        with r show ?thesis
          by (simp add: action_of_array [OF assms(2) r2 p])
      qed
    qed
  qed
qed

theorem C7_witness_other_settle_order:
  "fst (planet_images_reversed (JStr (js ''sun''))) <
     fst (planet_images_reversed (JStr (js ''moon'')))
   \<and> fst (planet_images (JStr (js ''moon''))) < fst (planet_images (JStr (js ''sun'')))
   \<and> fst (action example_env
            (example_world (one_choice (Some three_terms)) planet_images_reversed)
            example_request) =
     Returned
       \<lparr>body = SearchBody [JStr (js ''sun''), JStr (js ''moon''), JStr (js ''star'')]
           [image_result (example_item ''sun-1''), image_result (example_item ''sun-2''),
            image_result (example_item ''other'')],
        status = 200\<rparr>"
proof -
  let ?w1 = "example_world (one_choice (Some three_terms)) planet_images"
  let ?w2 = "example_world (one_choice (Some three_terms)) planet_images_reversed"
  have c: "post_completions ?w1 (completion_sent example_env example_request) =
      post_completions ?w2 (completion_sent example_env example_request)"
    by (simp add: example_world_def)
  have s: "search_answer example_env ?w1 tm = search_answer example_env ?w2 tm" for tm
    by (simp add: search_answer_def example_world_def planet_images_reversed_def)
  have t: "fst (planet_images_reversed (JStr (js ''sun''))) <
        fst (planet_images_reversed (JStr (js ''moon'')))
      \<and> fst (planet_images (JStr (js ''moon''))) < fst (planet_images (JStr (js ''sun'')))"
    by (simp add: planet_images_reversed_def planet_images_def js_def)
  from C7_response_determined_by_text_and_answers
    [OF example_credentials example_credentials c s planets_run] t
  show ?thesis by simp
qed



text \<open>
  C10. When the completion call is answered with an empty list of choices, or with a first
  choice that has no text, line 59 yields \<^verbatim>\<open>undefined\<close>, \<^verbatim>\<open>JSON.parse\<close> throws on
  it, and the action returns the 400 response after the completion call alone.
\<close>

theorem C10_missing_choice_or_text_is_400:
  assumes "credentials_set e"
    and "post_completions w (completion_sent e rq) = Inr d"
    and "choices d = Some [] \<or> (\<exists>c cs. choices d = Some (c # cs) \<and> choice_text c = None)"
  shows "gptResult_of d = Inr None
       \<and> JSON_parse None = Inl SyntaxError
       \<and> action e w rq =
           (Returned \<lparr>body = ErrorBody ''Invalid response from GPT'', status = 400\<rparr>,
            [CompletionCall (completion_sent e rq)])"
proof -
  from assms(3) have g: "gptResult_of d = Inr None"
    by (auto simp: gptResult_of_def)
  with assms(2) have "completion_returns e w rq None"
    by (simp add: completion_returns_def)
  from action_unparsed [OF assms(1) this JSON_parse_undefined] g show ?thesis
    by (simp add: JSON_parse_undefined invalid_response_def)
qed

theorem C10_witness_no_choice_and_no_text:
  "action example_env (example_world \<lparr>choices = Some []\<rparr> planet_images) example_request =
     (Returned \<lparr>body = ErrorBody ''Invalid response from GPT'', status = 400\<rparr>,
      [CompletionCall (completion_sent example_env example_request)])
   \<and> action example_env (example_world (one_choice None) planet_images) example_request =
     (Returned \<lparr>body = ErrorBody ''Invalid response from GPT'', status = 400\<rparr>,
      [CompletionCall (completion_sent example_env example_request)])"
proof -
  have a: "post_completions (example_world d planet_images)
      (completion_sent example_env example_request) = Inr d" for d
    by (simp add: example_world_def)
  have n: "choices (one_choice None) = Some [] \<or>
      (\<exists>c cs. choices (one_choice None) = Some (c # cs) \<and> choice_text c = None)"
    by (simp add: one_choice_def)
  from C10_missing_choice_or_text_is_400 [OF example_credentials a, of "\<lparr>choices = Some []\<rparr>"]
    C10_missing_choice_or_text_is_400 [OF example_credentials a n]
  show ?thesis
    by simp
qed

end
